theory Spec2Isabelle
  imports Complex_Main
begin

section \<open>The heartbeat checker of rabbitpy (src/rabbitpy/heartbeat.py)\<close>

text \<open>
  Times and durations are seconds, as \<open>time.time()\<close> returns them (seconds since the
  Unix epoch); they are modelled as exact reals, so the rounding of Python floats is not
  part of the model. The byte counter \<open>io.bytes_received\<close> is a Python integer.

  Every method of \<open>Checker\<close> is one atomic step of the model: the lock that
  \<open>on_heartbeat\<close> and \<open>_check_for_heartbeat\<close> take around their single assignment is
  the atomicity of that step, and the two reads of \<open>bytes_received\<close> in one check return
  the same value.
\<close>

subsection \<open>Data\<close>

text \<open>
  \<open>exceptions.ConnectionResetException(message)\<close>, where the message is
  \<open>'No heartbeat in {0} seconds'.format(age)\<close>: the exception is represented by the
  age formatted into its message.
\<close>

datatype exn = ConnectionResetException real

text \<open>
  The attributes of a \<open>Checker\<close>, together with the two things outside it that its
  methods read or change: the byte counter of the I/O object and the \<open>threading.Timer\<close>
  threads that have been started and have not fired yet.
  \<^item> \<open>exceptions\<close>: \<open>self._exceptions\<close>, the queue; \<open>put\<close> appends at the end.
  \<^item> \<open>bytes_received\<close>: \<open>self._io.bytes_received\<close>.
  \<^item> \<open>interval\<close>, \<open>last_bytes\<close>, \<open>last_heartbeat\<close>: the attributes of these names.
  \<^item> \<open>heartbeat_timer\<close>: \<open>self._heartbeat_timer\<close>, the timer created last, given by the
    time it is due; the attribute does not exist before the first timer is created.
  \<^item> \<open>timers\<close>: the started timers that have not fired, each given by the time it is
    due. Every timer runs \<open>_check_for_heartbeat\<close>.
\<close>

record checker =
  exceptions :: "exn list"
  bytes_received :: int
  interval :: real
  last_bytes :: int
  last_heartbeat :: real
  heartbeat_timer :: "real option"
  timers :: "real list"

definition MAX_MISSED_HEARTBEATS :: real where
  "MAX_MISSED_HEARTBEATS = 2"

text \<open>\<open>Checker.__init__(io, exception_queue)\<close>, for an I/O object whose counter reads \<open>io\<close>.\<close>

definition Checker :: "int \<Rightarrow> exn list \<Rightarrow> checker" where
  "Checker io exception_queue =
     \<lparr>exceptions = exception_queue, bytes_received = io, interval = 0, last_bytes = 0,
      last_heartbeat = 0, heartbeat_timer = None, timers = []\<rparr>"

subsection \<open>Methods\<close>

text \<open>Each method takes the reading \<open>now\<close> of \<open>time.time()\<close> at the call.\<close>

definition on_heartbeat :: "real \<Rightarrow> checker \<Rightarrow> checker" where
  "on_heartbeat now s = s\<lparr>last_heartbeat := now\<rparr>"

text \<open>
  \<open>_start_heartbeat_timer\<close>: a new \<open>threading.Timer(self._interval, ...)\<close> is stored in
  \<open>self._heartbeat_timer\<close> and started; it is due \<open>interval\<close> seconds from now. A timer
  stored there before is neither cancelled nor changed.
\<close>

definition start_heartbeat_timer :: "real \<Rightarrow> checker \<Rightarrow> checker" where
  "start_heartbeat_timer now s =
     s\<lparr>heartbeat_timer := Some (now + interval s), timers := timers s @ [now + interval s]\<rparr>"

text \<open>\<open>start\<close>: \<open>if self._interval:\<close> is Python truth, which for a number is \<open>\<noteq> 0\<close>.\<close>

definition start :: "real \<Rightarrow> real \<Rightarrow> checker \<Rightarrow> checker" where
  "start i now s =
     (let s' = s\<lparr>interval := i\<rparr>
      in if interval s' \<noteq> 0 then start_heartbeat_timer now s' else s')"

definition check_for_heartbeat :: "real \<Rightarrow> checker \<Rightarrow> checker" where
  "check_for_heartbeat now s =
     (if bytes_received s > last_bytes s
      then start_heartbeat_timer now (s\<lparr>last_bytes := bytes_received s\<rparr>)
      else
        let age = now - last_heartbeat s;
            threshold = interval s * MAX_MISSED_HEARTBEATS
        in if age \<ge> threshold
           then s\<lparr>exceptions := exceptions s @ [ConnectionResetException age]\<rparr>
           else start_heartbeat_timer now s)"

subsection \<open>Executions\<close>

text \<open>
  What can happen to a checker: a call of \<open>start\<close>, a call of \<open>on_heartbeat\<close>, the I/O
  layer receiving \<open>n\<close> more bytes, and a started timer firing. \<open>Fire d\<close> is the timer that
  was due at \<open>d\<close>; a \<open>threading.Timer\<close> runs its function once, no earlier than it is due,
  and is not pending any more when the function runs.
\<close>

datatype event = Start real | NotifyHeartbeat | Received nat | Fire real

fun step :: "real \<Rightarrow> event \<Rightarrow> checker \<Rightarrow> checker option" where
  "step now (Start i) s = Some (start i now s)"
| "step now NotifyHeartbeat s = Some (on_heartbeat now s)"
| "step now (Received n) s = Some (s\<lparr>bytes_received := bytes_received s + int n\<rparr>)"
| "step now (Fire d) s =
     (if d \<in> set (timers s) \<and> d \<le> now
      then Some (check_for_heartbeat now (s\<lparr>timers := remove1 d (timers s)\<rparr>))
      else None)"

text \<open>
  A timed trace is a list of events, each with the clock reading at which it happens.
  \<open>run t es s\<close> executes it from state \<open>s\<close> with the clock at \<open>t\<close>; the result is \<open>None\<close>
  when the clock would go backwards or a timer fires that is not pending or not yet due.
\<close>

fun run :: "real \<Rightarrow> (real \<times> event) list \<Rightarrow> checker \<Rightarrow> checker option" where
  "run t [] s = Some s"
| "run t ((now, e) # es) s =
     (if t \<le> now
      then (case step now e s of None \<Rightarrow> None | Some s' \<Rightarrow> run now es s')
      else None)"

text \<open>The clock reading at the end of a trace, and the number of calls of \<open>start\<close> in it.\<close>

fun end_time :: "real \<Rightarrow> (real \<times> event) list \<Rightarrow> real" where
  "end_time t [] = t"
| "end_time t ((now, e) # es) = end_time now es"

fun is_Start :: "event \<Rightarrow> bool" where
  "is_Start (Start i) = True"
| "is_Start e = False"

fun starts :: "(real \<times> event) list \<Rightarrow> nat" where
  "starts [] = 0"
| "starts ((now, e) # es) = (if is_Start e then Suc (starts es) else starts es)"

section \<open>Properties of one check\<close>

lemma check_bytes_increased:
  "last_bytes s < bytes_received s \<Longrightarrow>
   check_for_heartbeat now s =
     s\<lparr>last_bytes := bytes_received s, heartbeat_timer := Some (now + interval s),
       timers := timers s @ [now + interval s]\<rparr>"
  by (simp add: check_for_heartbeat_def start_heartbeat_timer_def)

lemma check_no_bytes_expired:
  "\<not> last_bytes s < bytes_received s \<Longrightarrow> interval s * 2 \<le> now - last_heartbeat s \<Longrightarrow>
   check_for_heartbeat now s =
     s\<lparr>exceptions := exceptions s @ [ConnectionResetException (now - last_heartbeat s)]\<rparr>"
  by (simp add: check_for_heartbeat_def MAX_MISSED_HEARTBEATS_def Let_def)

lemma check_no_bytes_alive:
  "\<not> last_bytes s < bytes_received s \<Longrightarrow> \<not> interval s * 2 \<le> now - last_heartbeat s \<Longrightarrow>
   check_for_heartbeat now s =
     s\<lparr>heartbeat_timer := Some (now + interval s), timers := timers s @ [now + interval s]\<rparr>"
  by (simp add: check_for_heartbeat_def MAX_MISSED_HEARTBEATS_def Let_def
      start_heartbeat_timer_def)

section \<open>Properties of executions\<close>

subsection \<open>Splitting a trace\<close>

lemma run_append:
  "run t (es1 @ es2) s =
     (case run t es1 s of None \<Rightarrow> None | Some s1 \<Rightarrow> run (end_time t es1) es2 s1)"
proof (induction es1 arbitrary: t s)
  case Nil
  show ?case by simp
next
  case (Cons te es1)
  obtain now e where te: "te = (now, e)" by (cases te)
  show ?case
    unfolding te using Cons.IH by (simp split: option.splits)
qed

lemma run_prefix:
  assumes "run t (es1 @ es2) s = Some s2"
  obtains s1 where "run t es1 s = Some s1" and "run (end_time t es1) es2 s1 = Some s2"
  using assms by (auto simp: run_append split: option.splits)

lemma starts_append: "starts (es1 @ es2) = starts es1 + starts es2"
  by (induction es1) auto

subsection \<open>Timers and failures are paid for by calls of \<open>start\<close>\<close>

lemma start_heartbeat_timer_fields:
  "timers (start_heartbeat_timer now s) = timers s @ [now + interval s]"
  "exceptions (start_heartbeat_timer now s) = exceptions s"
  "last_heartbeat (start_heartbeat_timer now s) = last_heartbeat s"
  by (simp_all add: start_heartbeat_timer_def)

lemma start_fields:
  "timers (start i now s) = (if i \<noteq> 0 then timers s @ [now + i] else timers s)"
  "exceptions (start i now s) = exceptions s"
  "last_heartbeat (start i now s) = last_heartbeat s"
  "interval (start i now s) = i"
  by (simp_all add: start_def start_heartbeat_timer_def Let_def)

lemma check_arms_or_fails:
  "(timers (check_for_heartbeat now s) = timers s @ [now + interval s]
      \<and> exceptions (check_for_heartbeat now s) = exceptions s)
   \<or> (timers (check_for_heartbeat now s) = timers s
      \<and> exceptions (check_for_heartbeat now s) =
          exceptions s @ [ConnectionResetException (now - last_heartbeat s)])"
  by (simp add: check_for_heartbeat_def start_heartbeat_timer_def Let_def)

lemma check_last_heartbeat:
  "last_heartbeat (check_for_heartbeat now s) = last_heartbeat s"
  by (simp add: check_for_heartbeat_def start_heartbeat_timer_def Let_def)

lemma check_budget:
  "length (timers (check_for_heartbeat now s)) + length (exceptions (check_for_heartbeat now s))
     = Suc (length (timers s) + length (exceptions s))"
  using check_arms_or_fails [of now s] by auto

lemma step_budget:
  assumes "step now e s = Some s'"
  shows "length (timers s') + length (exceptions s')
           \<le> (if is_Start e then 1 else 0) + length (timers s) + length (exceptions s)"
proof (cases e)
  case (Start i)
  with assms show ?thesis by (auto simp: start_fields)
next
  case NotifyHeartbeat
  with assms show ?thesis by (auto simp: on_heartbeat_def)
next
  case (Received n)
  with assms show ?thesis by auto
next
  case (Fire d)
  with assms have d: "d \<in> set (timers s)"
    and s': "s' = check_for_heartbeat now (s\<lparr>timers := remove1 d (timers s)\<rparr>)"
    by (auto split: if_splits)
  from d have "0 < length (timers s)"
    by (cases "timers s") auto
  with d have "Suc (length (remove1 d (timers s))) = length (timers s)"
    by (simp add: length_remove1)
  with s' Fire show ?thesis
    using check_budget [of now "s\<lparr>timers := remove1 d (timers s)\<rparr>"] by simp
qed

lemma step_exceptions:
  assumes "step now e s = Some s'"
  shows "\<exists>fs. exceptions s' = exceptions s @ fs"
proof (cases e)
  case (Fire d)
  with assms show ?thesis
    using check_arms_or_fails [of now "s\<lparr>timers := remove1 d (timers s)\<rparr>"]
    by (auto split: if_splits)
qed (use assms in \<open>auto simp: start_fields on_heartbeat_def\<close>)

lemma run_budget:
  "run t es s = Some s' \<Longrightarrow>
   length (timers s') + length (exceptions s')
     \<le> starts es + length (timers s) + length (exceptions s)"
proof (induction es arbitrary: t s)
  case Nil
  then show ?case by simp
next
  case (Cons te es)
  obtain now e where te: "te = (now, e)" by (cases te)
  from Cons.prems obtain s1 where s1: "step now e s = Some s1" and r: "run now es s1 = Some s'"
    unfolding te by (auto split: if_splits option.splits)
  from Cons.IH [OF r] step_budget [OF s1] show ?case
    unfolding te by (simp split: if_splits)
qed

lemma run_exceptions:
  "run t es s = Some s' \<Longrightarrow> \<exists>fs. exceptions s' = exceptions s @ fs"
proof (induction es arbitrary: t s)
  case Nil
  then show ?case by simp
next
  case (Cons te es)
  obtain now e where te: "te = (now, e)" by (cases te)
  from Cons.prems obtain s1 where s1: "step now e s = Some s1" and r: "run now es s1 = Some s'"
    unfolding te by (auto split: if_splits option.splits)
  from Cons.IH [OF r] step_exceptions [OF s1] show ?case by auto
qed

lemma run_pushed:
  assumes "run t es s = Some s'"
  obtains fs where "exceptions s' = exceptions s @ fs"
    and "length (timers s') + length fs \<le> starts es + length (timers s)"
proof -
  from run_exceptions [OF assms] obtain fs where fs: "exceptions s' = exceptions s @ fs" ..
  with run_budget [OF assms] have "length (timers s') + length fs \<le> starts es + length (timers s)"
    by simp
  with fs that show thesis by blast
qed

subsection \<open>The last heartbeat\<close>

lemma step_last_heartbeat:
  assumes "step now e s = Some s'" and "last_heartbeat s \<le> now"
  shows "last_heartbeat s \<le> last_heartbeat s' \<and> last_heartbeat s' \<le> now"
proof (cases e)
  case (Fire d)
  with assms show ?thesis by (auto simp: check_last_heartbeat split: if_splits)
qed (use assms in \<open>auto simp: start_fields on_heartbeat_def\<close>)

lemma run_last_heartbeat:
  "run t es s = Some s' \<Longrightarrow> last_heartbeat s \<le> t \<Longrightarrow>
   last_heartbeat s \<le> last_heartbeat s' \<and> last_heartbeat s' \<le> end_time t es"
proof (induction es arbitrary: t s)
  case Nil
  then show ?case by simp
next
  case (Cons te es)
  obtain now e where te: "te = (now, e)" by (cases te)
  from Cons.prems obtain s1 where t: "t \<le> now" and s1: "step now e s = Some s1"
    and r: "run now es s1 = Some s'"
    unfolding te by (auto split: if_splits option.splits)
  from Cons.prems t have "last_heartbeat s \<le> now" by simp
  from step_last_heartbeat [OF s1 this] Cons.IH [OF r] show ?case
    unfolding te by simp
qed

lemma step_no_heartbeat:
  assumes "step now e s = Some s'" and "e \<noteq> NotifyHeartbeat"
  shows "last_heartbeat s' = last_heartbeat s"
proof (cases e)
  case (Fire d)
  with assms show ?thesis by (auto simp: check_last_heartbeat split: if_splits)
qed (use assms in \<open>auto simp: start_fields\<close>)

lemma run_no_heartbeat:
  "run t es s = Some s' \<Longrightarrow> NotifyHeartbeat \<notin> snd ` set es \<Longrightarrow>
   last_heartbeat s' = last_heartbeat s"
proof (induction es arbitrary: t s)
  case Nil
  then show ?case by simp
next
  case (Cons te es)
  obtain now e where te: "te = (now, e)" by (cases te)
  from Cons.prems obtain s1 where s1: "step now e s = Some s1" and r: "run now es s1 = Some s'"
    unfolding te by (auto split: if_splits option.splits)
  from Cons.prems have "e \<noteq> NotifyHeartbeat" and "NotifyHeartbeat \<notin> snd ` set es"
    unfolding te by auto
  with Cons.IH [OF r] step_no_heartbeat [OF s1] show ?case by simp
qed

lemma Checker_fields:
  "exceptions (Checker io q) = q" "timers (Checker io q) = []"
  "last_heartbeat (Checker io q) = 0" "last_bytes (Checker io q) = 0"
  "bytes_received (Checker io q) = io" "interval (Checker io q) = 0"
  by (simp_all add: Checker_def)

section \<open>The check routine\<close>

text \<open>
  C2. A check that reads a byte counter strictly greater than \<open>last_bytes\<close> pushes nothing,
  however old \<open>last_heartbeat\<close> is; it stores the counter in \<open>last_bytes\<close> and arms exactly
  one new timer, due \<open>interval\<close> after the check. Nothing else changes.
\<close>

theorem C2_bytes_increased_rearms:
  assumes "bytes_received s > last_bytes s"
  shows "exceptions (check_for_heartbeat now s) = exceptions s
       \<and> last_bytes (check_for_heartbeat now s) = bytes_received s
       \<and> timers (check_for_heartbeat now s) = timers s @ [now + interval s]
       \<and> heartbeat_timer (check_for_heartbeat now s) = Some (now + interval s)
       \<and> interval (check_for_heartbeat now s) = interval s
       \<and> last_heartbeat (check_for_heartbeat now s) = last_heartbeat s
       \<and> bytes_received (check_for_heartbeat now s) = bytes_received s"
  using assms by (simp add: check_bytes_increased)

theorem C2_bytes_increased_rearms_witness:
  "bytes_received ((Checker 100 [])\<lparr>interval := 2\<rparr>) > last_bytes ((Checker 100 [])\<lparr>interval := 2\<rparr>)
   \<and> exceptions (check_for_heartbeat 1002 ((Checker 100 [])\<lparr>interval := 2\<rparr>)) = []
   \<and> last_bytes (check_for_heartbeat 1002 ((Checker 100 [])\<lparr>interval := 2\<rparr>)) = 100
   \<and> timers (check_for_heartbeat 1002 ((Checker 100 [])\<lparr>interval := 2\<rparr>)) = [1004]"
  using C2_bytes_increased_rearms [of "(Checker 100 [])\<lparr>interval := 2\<rparr>" 1002]
  by (simp add: Checker_def)

text \<open>
  C3. A check that reads no new bytes pushes a failure exactly when the age
  \<open>now - last_heartbeat\<close> is at least \<open>interval * 2\<close>. The failure is one
  \<open>ConnectionResetException\<close> carrying the age, and then no timer is armed; otherwise
  exactly one timer is armed, due \<open>interval\<close> later, and nothing is pushed.
\<close>

theorem C3_no_bytes_threshold:
  assumes "\<not> bytes_received s > last_bytes s"
  shows "MAX_MISSED_HEARTBEATS = 2
       \<and> (if now - last_heartbeat s \<ge> interval s * MAX_MISSED_HEARTBEATS
          then exceptions (check_for_heartbeat now s) =
                 exceptions s @ [ConnectionResetException (now - last_heartbeat s)]
             \<and> timers (check_for_heartbeat now s) = timers s
          else exceptions (check_for_heartbeat now s) = exceptions s
             \<and> timers (check_for_heartbeat now s) = timers s @ [now + interval s])"
  using assms
  by (simp add: check_no_bytes_expired check_no_bytes_alive MAX_MISSED_HEARTBEATS_def)

theorem C3_no_bytes_threshold_witness:
  "\<not> bytes_received ((Checker 0 [])\<lparr>interval := 2, last_heartbeat := 1000\<rparr>)
       > last_bytes ((Checker 0 [])\<lparr>interval := 2, last_heartbeat := 1000\<rparr>)
   \<and> exceptions (check_for_heartbeat 1004 ((Checker 0 [])\<lparr>interval := 2, last_heartbeat := 1000\<rparr>))
       = [ConnectionResetException 4]
   \<and> timers (check_for_heartbeat 1004 ((Checker 0 [])\<lparr>interval := 2, last_heartbeat := 1000\<rparr>)) = []
   \<and> exceptions (check_for_heartbeat 1003 ((Checker 0 [])\<lparr>interval := 2, last_heartbeat := 1000\<rparr>)) = []
   \<and> timers (check_for_heartbeat 1003 ((Checker 0 [])\<lparr>interval := 2, last_heartbeat := 1000\<rparr>))
       = [1005]"
  using C3_no_bytes_threshold [of "(Checker 0 [])\<lparr>interval := 2, last_heartbeat := 1000\<rparr>" 1004,
      unfolded MAX_MISSED_HEARTBEATS_def]
    C3_no_bytes_threshold [of "(Checker 0 [])\<lparr>interval := 2, last_heartbeat := 1000\<rparr>" 1003,
      unfolded MAX_MISSED_HEARTBEATS_def]
  by (simp add: Checker_def)

section \<open>Start and the heartbeat notification\<close>

text \<open>
  C6. For a non-negative interval, \<open>start\<close> stores the interval and arms the first timer,
  due \<open>interval\<close> after the call, exactly when the interval is positive; it pushes nothing.
  After \<open>start\<close> with interval 0 on a new checker, whatever happens later and whenever
  (heartbeats, bytes; no timer exists that could fire), no timer is armed and nothing is
  pushed.
\<close>

theorem C6_start_arms_iff_positive:
  assumes "0 \<le> i"
  shows "interval (start i now s) = i
       \<and> (if 0 < i then timers (start i now s) = timers s @ [now + i]
          else timers (start i now s) = timers s)
       \<and> exceptions (start i now s) = exceptions s
       \<and> (run t ((t0, Start 0) # es) (Checker io q) = Some s' \<and> starts es = 0
            \<longrightarrow> timers s' = [] \<and> exceptions s' = q)"
proof -
  have "timers s' = [] \<and> exceptions s' = q"
    if r: "run t ((t0, Start 0) # es) (Checker io q) = Some s'" and n: "starts es = 0"
  proof -
    from r have "run t0 es (start 0 t0 (Checker io q)) = Some s'"
      by (simp split: if_splits)
    then obtain fs where "exceptions s' = exceptions (start 0 t0 (Checker io q)) @ fs"
      and "length (timers s') + length fs \<le> starts es + length (timers (start 0 t0 (Checker io q)))"
      by (rule run_pushed)
    with n show ?thesis by (simp add: start_fields Checker_def)
  qed
  with assms show ?thesis by (simp add: start_fields)
qed

theorem C6_start_arms_iff_positive_witness:
  "(0::real) \<le> 2
   \<and> interval (start 2 1000 (Checker 0 [])) = 2
   \<and> timers (start 2 1000 (Checker 0 [])) = [1002]
   \<and> run 1000 [(1000, Start 0), (1001, NotifyHeartbeat), (5000, Received 7)] (Checker 0 [])
       = Some \<lparr>exceptions = [], bytes_received = 7, interval = 0, last_bytes = 0,
               last_heartbeat = 1001, heartbeat_timer = None, timers = []\<rparr>
   \<and> starts [(1001, NotifyHeartbeat), (5000, Received 7)] = 0
   \<and> run 1000 [(1000, Start 0), (1001, Fire 1000)] (Checker 0 []) = None"
  using C6_start_arms_iff_positive [of 2 1000 "Checker 0 []" 1000 1000
      "[(1001, NotifyHeartbeat), (5000, Received 7)]" 0 "[]"
      "\<lparr>exceptions = [], bytes_received = 7, interval = 0, last_bytes = 0,
        last_heartbeat = 1001, heartbeat_timer = None, timers = []\<rparr>"]
  by (simp add: Checker_def start_def on_heartbeat_def)

text \<open>
  C7. \<open>on_heartbeat\<close> sets \<open>last_heartbeat\<close> to the current time, pushes nothing and
  changes nothing else. As no other operation writes \<open>last_heartbeat\<close>, along every
  execution of a new checker whose clock starts at or after the epoch, \<open>last_heartbeat\<close>
  never decreases: its value at any earlier moment is at most its value at any later one.
\<close>

theorem C7_last_heartbeat_moves_forward:
  assumes "0 \<le> t" and "run t (es1 @ es2) (Checker io q) = Some s2"
  shows "last_heartbeat (on_heartbeat now s) = now
       \<and> exceptions (on_heartbeat now s) = exceptions s
       \<and> bytes_received (on_heartbeat now s) = bytes_received s
       \<and> interval (on_heartbeat now s) = interval s
       \<and> last_bytes (on_heartbeat now s) = last_bytes s
       \<and> heartbeat_timer (on_heartbeat now s) = heartbeat_timer s
       \<and> timers (on_heartbeat now s) = timers s
       \<and> (\<exists>s1. run t es1 (Checker io q) = Some s1 \<and> last_heartbeat s1 \<le> last_heartbeat s2)"
proof -
  from assms(2) obtain s1 where s1: "run t es1 (Checker io q) = Some s1"
    and s2: "run (end_time t es1) es2 s1 = Some s2"
    by (rule run_prefix)
  from assms(1) have "last_heartbeat (Checker io q) \<le> t"
    by (simp add: Checker_def)
  from run_last_heartbeat [OF s1 this] have "last_heartbeat s1 \<le> end_time t es1" ..
  from run_last_heartbeat [OF s2 this] have "last_heartbeat s1 \<le> last_heartbeat s2" ..
  with s1 show ?thesis by (simp add: on_heartbeat_def)
qed

theorem C7_last_heartbeat_moves_forward_witness:
  "(0::real) \<le> 1000
   \<and> run 1000 ([(1000, Start 2), (1001, NotifyHeartbeat)] @ [(1002, Fire 1002), (1003, NotifyHeartbeat)])
       (Checker 0 [])
       = Some \<lparr>exceptions = [], bytes_received = 0, interval = 2, last_bytes = 0,
               last_heartbeat = 1003, heartbeat_timer = Some 1004, timers = [1004]\<rparr>
   \<and> last_heartbeat (on_heartbeat 1001 (Checker 0 [])) = 1001
   \<and> (\<exists>s1. run 1000 [(1000, Start 2), (1001, NotifyHeartbeat)] (Checker 0 []) = Some s1
          \<and> last_heartbeat s1 \<le> 1003)"
proof -
  have r: "run 1000 ([(1000, Start 2), (1001, NotifyHeartbeat)] @ [(1002, Fire 1002), (1003, NotifyHeartbeat)])
       (Checker 0 [])
       = Some \<lparr>exceptions = [], bytes_received = 0, interval = 2, last_bytes = 0,
               last_heartbeat = 1003, heartbeat_timer = Some 1004, timers = [1004]\<rparr>"
    by (simp add: Checker_def start_def start_heartbeat_timer_def on_heartbeat_def
        check_for_heartbeat_def MAX_MISSED_HEARTBEATS_def)
  have t: "(0::real) \<le> 1000" by simp
  from C7_last_heartbeat_moves_forward [OF t r, of 1001 "Checker 0 []"] r show ?thesis
    by simp
qed

section \<open>Failures and timers over the lifetime of a checker\<close>

text \<open>
  C4, as amended. Along every execution of a new checker in which \<open>start\<close> is called at
  most once (any heartbeats, received bytes and timer firings, at any times), at most one
  failure is pushed onto the queue in all; and once a failure has been pushed, the queue
  stays as it is.
\<close>

theorem C4_one_start_at_most_one_failure:
  assumes "run t (es1 @ es2) (Checker io q) = Some s2" and "starts (es1 @ es2) \<le> 1"
  shows "\<exists>s1 fs. run t es1 (Checker io q) = Some s1
           \<and> exceptions s2 = q @ fs \<and> length fs \<le> 1
           \<and> (exceptions s1 \<noteq> q \<longrightarrow> exceptions s2 = exceptions s1)"
proof -
  from assms(1) obtain s1 where s1: "run t es1 (Checker io q) = Some s1"
    and s2: "run (end_time t es1) es2 s1 = Some s2"
    by (rule run_prefix)
  from s1 obtain fs1 where f1: "exceptions s1 = exceptions (Checker io q) @ fs1"
    and b1: "length (timers s1) + length fs1 \<le> starts es1 + length (timers (Checker io q))"
    by (rule run_pushed)
  from s2 obtain fs2 where f2: "exceptions s2 = exceptions s1 @ fs2"
    and b2: "length (timers s2) + length fs2 \<le> starts es2 + length (timers s1)"
    by (rule run_pushed)
  from b1 b2 assms(2) have le: "length fs1 + length fs2 \<le> 1"
    by (simp add: starts_append Checker_fields)
  from f1 f2 have all: "exceptions s2 = q @ (fs1 @ fs2)"
    by (simp add: Checker_fields)
  have "exceptions s2 = exceptions s1" if "exceptions s1 \<noteq> q"
  proof -
    from that f1 have "fs1 \<noteq> []" by (auto simp: Checker_fields)
    then have "0 < length fs1" by simp
    with le have "length fs2 = 0" by linarith
    with f2 show ?thesis by simp
  qed
  with s1 all le show ?thesis by auto
qed

theorem C4_one_start_at_most_one_failure_witness:
  "run 1000 ([(1000, Start 2), (1001, NotifyHeartbeat), (1002, Fire 1002), (1004, Fire 1004),
              (1006, Fire 1006)] @ [(1007, NotifyHeartbeat), (1010, Received 5)]) (Checker 0 [])
     = Some \<lparr>exceptions = [ConnectionResetException 5], bytes_received = 5, interval = 2,
             last_bytes = 0, last_heartbeat = 1007, heartbeat_timer = Some 1006, timers = []\<rparr>
   \<and> starts ([(1000, Start 2), (1001, NotifyHeartbeat), (1002, Fire 1002), (1004, Fire 1004),
              (1006, Fire 1006)] @ [(1007, NotifyHeartbeat), (1010, Received 5)]) \<le> 1
   \<and> map_option exceptions (run 1000 [(1000, Start 2), (1001, NotifyHeartbeat), (1002, Fire 1002),
        (1004, Fire 1004), (1006, Fire 1006)] (Checker 0 [])) = Some [ConnectionResetException 5]
   \<and> (\<exists>fs. [ConnectionResetException 5] = [] @ fs \<and> length fs \<le> 1)"
proof -
  have r: "run 1000 ([(1000, Start 2), (1001, NotifyHeartbeat), (1002, Fire 1002), (1004, Fire 1004),
              (1006, Fire 1006)] @ [(1007, NotifyHeartbeat), (1010, Received 5)]) (Checker 0 [])
     = Some \<lparr>exceptions = [ConnectionResetException 5], bytes_received = 5, interval = 2,
             last_bytes = 0, last_heartbeat = 1007, heartbeat_timer = Some 1006, timers = []\<rparr>"
    by (simp add: Checker_def start_def start_heartbeat_timer_def on_heartbeat_def
        check_for_heartbeat_def MAX_MISSED_HEARTBEATS_def)
  have n: "starts ([(1000, Start 2), (1001, NotifyHeartbeat), (1002, Fire 1002), (1004, Fire 1004),
              (1006, Fire 1006)] @ [(1007, NotifyHeartbeat), (1010, Received 5)]) \<le> 1"
    by simp
  have p: "map_option exceptions (run 1000 [(1000, Start 2), (1001, NotifyHeartbeat),
        (1002, Fire 1002), (1004, Fire 1004), (1006, Fire 1006)] (Checker 0 []))
      = Some [ConnectionResetException 5]"
    by (simp add: Checker_def start_def start_heartbeat_timer_def on_heartbeat_def
        check_for_heartbeat_def MAX_MISSED_HEARTBEATS_def)
  from C4_one_start_at_most_one_failure [OF r n]
  have "\<exists>fs. [ConnectionResetException 5] = [] @ fs \<and> length fs \<le> 1"
    by auto
  with r n p show ?thesis by blast
qed

text \<open>
  The claim as stated, for every interleaving of calls of \<open>start\<close>, fails: \<open>start\<close> has no
  guard against a second call, which arms a second timer while the first is pending, and
  each of the two chains of checks ends with its own failure. Here \<open>start(2)\<close> is called
  at 1000 and at 1001, one heartbeat arrives at 1001.5, then nothing.
\<close>

theorem C4_two_starts_two_failures:
  "map_option exceptions
     (run 1000 [(1000, Start 2), (1001, Start 2), (1001.5, NotifyHeartbeat),
                (1002, Fire 1002), (1003, Fire 1003), (1004, Fire 1004), (1005, Fire 1005),
                (1006, Fire 1006), (1007, Fire 1007)] (Checker 0 []))
   = Some [ConnectionResetException 4.5, ConnectionResetException 5.5]"
  by (simp add: Checker_def start_def start_heartbeat_timer_def on_heartbeat_def
      check_for_heartbeat_def MAX_MISSED_HEARTBEATS_def)

text \<open>
  C8, as amended. Along every execution of a new checker in which \<open>start\<close> is called at
  most once, at most one timer is armed at every moment. And every execution of the check,
  in any state, either arms exactly one new timer and pushes nothing, or pushes one failure
  and arms nothing.
\<close>

theorem C8_one_start_at_most_one_timer:
  assumes "run t (es1 @ es2) (Checker io q) = Some s2" and "starts (es1 @ es2) \<le> 1"
  shows "(\<exists>s1. run t es1 (Checker io q) = Some s1 \<and> length (timers s1) \<le> 1)
       \<and> (timers (check_for_heartbeat now s) = timers s @ [now + interval s]
            \<and> exceptions (check_for_heartbeat now s) = exceptions s
          \<or> timers (check_for_heartbeat now s) = timers s
            \<and> exceptions (check_for_heartbeat now s) =
                exceptions s @ [ConnectionResetException (now - last_heartbeat s)])"
proof -
  from assms(1) obtain s1 where s1: "run t es1 (Checker io q) = Some s1"
    and s2: "run (end_time t es1) es2 s1 = Some s2"
    by (rule run_prefix)
  from s1 obtain fs1 where "exceptions s1 = exceptions (Checker io q) @ fs1"
    and "length (timers s1) + length fs1 \<le> starts es1 + length (timers (Checker io q))"
    by (rule run_pushed)
  with assms(2) have "length (timers s1) \<le> 1"
    by (simp add: starts_append Checker_fields)
  with s1 check_arms_or_fails [of now s] show ?thesis by blast
qed

theorem C8_one_start_at_most_one_timer_witness:
  "run 1000 ([(1000, Start 2), (1001, NotifyHeartbeat), (1002, Fire 1002)] @ [(1004, Fire 1004),
              (1006, Fire 1006)]) (Checker 0 [])
     = Some \<lparr>exceptions = [ConnectionResetException 5], bytes_received = 0, interval = 2,
             last_bytes = 0, last_heartbeat = 1001, heartbeat_timer = Some 1006, timers = []\<rparr>
   \<and> starts ([(1000, Start 2), (1001, NotifyHeartbeat), (1002, Fire 1002)] @ [(1004, Fire 1004),
              (1006, Fire 1006)]) \<le> 1
   \<and> (\<exists>s1. run 1000 [(1000, Start 2), (1001, NotifyHeartbeat), (1002, Fire 1002)] (Checker 0 [])
             = Some s1 \<and> length (timers s1) \<le> 1)"
proof -
  have r: "run 1000 ([(1000, Start 2), (1001, NotifyHeartbeat), (1002, Fire 1002)] @ [(1004, Fire 1004),
              (1006, Fire 1006)]) (Checker 0 [])
     = Some \<lparr>exceptions = [ConnectionResetException 5], bytes_received = 0, interval = 2,
             last_bytes = 0, last_heartbeat = 1001, heartbeat_timer = Some 1006, timers = []\<rparr>"
    by (simp add: Checker_def start_def start_heartbeat_timer_def on_heartbeat_def
        check_for_heartbeat_def MAX_MISSED_HEARTBEATS_def)
  have n: "starts ([(1000, Start 2), (1001, NotifyHeartbeat), (1002, Fire 1002)] @ [(1004, Fire 1004),
              (1006, Fire 1006)]) \<le> 1"
    by simp
  from C8_one_start_at_most_one_timer [OF r n] r n show ?thesis by blast
qed

text \<open>
  The claim as stated, for every moment of every checker, fails after a second call of
  \<open>start\<close>: the timer of the first call is still pending when the second is armed.
\<close>

theorem C8_two_starts_two_timers:
  "map_option timers (run 1000 [(1000, Start 2), (1001, Start 2)] (Checker 0 []))
   = Some [1002, 1003]"
  by (simp add: Checker_def start_def start_heartbeat_timer_def)

section \<open>A timer that fires late\<close>

text \<open>
  C9, as amended. The checker has no teardown operation and no cancellation flag, and the
  check reads none: a timer that fires after the owning connection is gone runs the
  ordinary check. In every state and at every time the check changes the checker: it
  either pushes a failure or arms a new timer, so the number of armed timers and pushed
  failures together grows by exactly one.
\<close>

theorem C9_check_is_never_a_no_op:
  "check_for_heartbeat now s \<noteq> s
   \<and> length (timers (check_for_heartbeat now s)) + length (exceptions (check_for_heartbeat now s))
       = Suc (length (timers s) + length (exceptions s))"
proof -
  have "length (timers (check_for_heartbeat now s)) + length (exceptions (check_for_heartbeat now s))
       = Suc (length (timers s) + length (exceptions s))"
    by (rule check_budget)
  moreover from this have "check_for_heartbeat now s \<noteq> s"
    by (metis n_not_Suc_n)
  ultimately show ?thesis by simp
qed

theorem C9_check_is_never_a_no_op_witness:
  "check_for_heartbeat 1006 ((Checker 0 [])\<lparr>interval := 2, last_heartbeat := 1001\<rparr>)
     = (Checker 0 [])\<lparr>interval := 2, last_heartbeat := 1001,
          exceptions := [ConnectionResetException 5]\<rparr>
   \<and> check_for_heartbeat 1006 ((Checker 0 [])\<lparr>interval := 2, last_heartbeat := 1001\<rparr>)
       \<noteq> (Checker 0 [])\<lparr>interval := 2, last_heartbeat := 1001\<rparr>"
  using C9_check_is_never_a_no_op [of 1006 "(Checker 0 [])\<lparr>interval := 2, last_heartbeat := 1001\<rparr>"]
  by (simp add: Checker_def check_for_heartbeat_def MAX_MISSED_HEARTBEATS_def)

text \<open>
  The claim as stated fails. \<open>start(2)\<close> at 1000 and one heartbeat at 1001; the connection
  is then torn down, which changes nothing in the checker. The timer due at 1002 fires
  all the same and arms a new timer; the timers due at 1004 and 1006 fire in turn, and the
  last one pushes a failure.
\<close>

theorem C9_late_timer_rearms_and_fails:
  "map_option timers
     (run 1000 [(1000, Start 2), (1001, NotifyHeartbeat), (1002, Fire 1002)] (Checker 0 []))
     = Some [1004]
   \<and> map_option exceptions
     (run 1000 [(1000, Start 2), (1001, NotifyHeartbeat), (1002, Fire 1002),
                (1004, Fire 1004), (1006, Fire 1006)] (Checker 0 []))
     = Some [ConnectionResetException 5]"
  by (simp add: Checker_def start_def start_heartbeat_timer_def on_heartbeat_def
      check_for_heartbeat_def MAX_MISSED_HEARTBEATS_def)

section \<open>The initial value of the last heartbeat\<close>

text \<open>
  C10, as amended. As long as \<open>on_heartbeat\<close> has not been called, \<open>last_heartbeat\<close> is
  0, the epoch. A check of such a checker that reads no new bytes computes as age the
  clock reading itself, and pushes a failure carrying it exactly when the reading is at
  least \<open>interval * 2\<close>. So when \<open>start\<close> is called with a positive interval that is at
  most the clock reading of the call, on a new checker with no bytes received, the first
  timer to fire pushes the failure, and the failure reports the clock reading, not the
  time since \<open>start\<close>.
\<close>

theorem C10_unset_last_heartbeat_is_the_epoch:
  assumes "0 < i" and "i \<le> t0" and "t0 + i \<le> now"
    and "run t es (Checker io q) = Some s" and "NotifyHeartbeat \<notin> snd ` set es"
  shows "last_heartbeat s = 0
       \<and> (\<not> bytes_received s > last_bytes s \<longrightarrow>
            exceptions (check_for_heartbeat c s) =
              (if interval s * 2 \<le> c then exceptions s @ [ConnectionResetException c]
               else exceptions s))
       \<and> run t0 [(t0, Start i), (now, Fire (t0 + i))] (Checker 0 q0) =
           Some \<lparr>exceptions = q0 @ [ConnectionResetException now], bytes_received = 0,
                  interval = i, last_bytes = 0, last_heartbeat = 0,
                  heartbeat_timer = Some (t0 + i), timers = []\<rparr>"
proof -
  from run_no_heartbeat [OF assms(4,5)] have z: "last_heartbeat s = 0"
    by (simp add: Checker_fields)
  have age: "exceptions (check_for_heartbeat c s) =
      (if interval s * 2 \<le> c then exceptions s @ [ConnectionResetException c] else exceptions s)"
    if "\<not> bytes_received s > last_bytes s"
    using that z by (simp add: check_for_heartbeat_def MAX_MISSED_HEARTBEATS_def
        start_heartbeat_timer_def)
  from assms(1-3) have "t0 \<le> now" and "i * 2 \<le> now" and "i \<noteq> 0"
    by simp_all
  with assms(3) have "run t0 [(t0, Start i), (now, Fire (t0 + i))] (Checker 0 q0) =
           Some \<lparr>exceptions = q0 @ [ConnectionResetException now], bytes_received = 0,
                  interval = i, last_bytes = 0, last_heartbeat = 0,
                  heartbeat_timer = Some (t0 + i), timers = []\<rparr>"
    by (simp add: Checker_def start_def start_heartbeat_timer_def check_for_heartbeat_def
        MAX_MISSED_HEARTBEATS_def)
  with z age show ?thesis by simp
qed

theorem C10_unset_last_heartbeat_is_the_epoch_witness:
  "(0::real) < 2 \<and> (2::real) \<le> 1762214400 \<and> (1762214400::real) + 2 \<le> 1762214402
   \<and> run 1762214400 [(1762214400, Start 2), (1762214401, Received 0)] (Checker 0 [])
       = Some \<lparr>exceptions = [], bytes_received = 0, interval = 2, last_bytes = 0,
               last_heartbeat = 0, heartbeat_timer = Some 1762214402, timers = [1762214402]\<rparr>
   \<and> NotifyHeartbeat \<notin> snd ` set [(1762214400::real, Start 2), (1762214401, Received 0)]
   \<and> exceptions (check_for_heartbeat 1762214402
        \<lparr>exceptions = [], bytes_received = 0, interval = 2, last_bytes = 0,
          last_heartbeat = 0, heartbeat_timer = Some 1762214402, timers = [1762214402]\<rparr>)
       = [ConnectionResetException 1762214402]
   \<and> run 1762214400 [(1762214400, Start 2), (1762214402, Fire (1762214400 + 2))] (Checker 0 [])
       = Some \<lparr>exceptions = [ConnectionResetException 1762214402], bytes_received = 0,
               interval = 2, last_bytes = 0, last_heartbeat = 0,
               heartbeat_timer = Some (1762214400 + 2), timers = []\<rparr>"
proof -
  have r: "run 1762214400 [(1762214400, Start 2), (1762214401, Received 0)] (Checker 0 [])
       = Some \<lparr>exceptions = [], bytes_received = 0, interval = 2, last_bytes = 0,
               last_heartbeat = 0, heartbeat_timer = Some 1762214402, timers = [1762214402]\<rparr>"
    by (simp add: Checker_def start_def start_heartbeat_timer_def)
  have n: "NotifyHeartbeat \<notin> snd ` set [(1762214400::real, Start 2), (1762214401, Received 0)]"
    by simp
  have i: "(0::real) < 2" and t: "(2::real) \<le> 1762214400"
    and d: "(1762214400::real) + 2 \<le> 1762214402"
    by simp_all
  from C10_unset_last_heartbeat_is_the_epoch [OF i t d r n, where c = 1762214402 and ?q0.0 = "[]"] r n
  show ?thesis by simp
qed

text \<open>
  The claim as stated, for every positive interval, fails when the interval exceeds the
  clock reading at \<open>start\<close>: with the clock at 1762214400 and an interval of 2000000000
  seconds, the first check, at 3762214400, computes an age below the threshold
  4000000000, pushes nothing and arms the next timer.
\<close>

theorem C10_interval_above_clock_no_failure:
  "run 1762214400 [(1762214400, Start 2000000000), (3762214400, Fire 3762214400)] (Checker 0 [])
   = Some \<lparr>exceptions = [], bytes_received = 0, interval = 2000000000, last_bytes = 0,
           last_heartbeat = 0, heartbeat_timer = Some 5762214400, timers = [5762214400]\<rparr>"
  by (simp add: Checker_def start_def start_heartbeat_timer_def check_for_heartbeat_def
      MAX_MISSED_HEARTBEATS_def)

section \<open>Silence measured from the epoch\<close>

text \<open>
  C1. With \<open>start(2)\<close> at clock reading 1762214400, no heartbeat and a byte counter that
  never increases, the code does not report a failure four seconds after \<open>start\<close> with an
  age of about four seconds. On a checker whose counter reads 0, the first check, two
  seconds after \<open>start\<close>, already pushes the failure, with age 1762214402. On a checker
  whose counter reads 312 since before \<open>start\<close>, the first check takes the byte branch
  and the second, four seconds after \<open>start\<close>, pushes the failure with age 1762214404.
\<close>

theorem C1_failure_reports_age_since_epoch:
  "run 1762214400 [(1762214400, Start 2), (1762214402, Fire 1762214402)] (Checker 0 [])
     = Some \<lparr>exceptions = [ConnectionResetException 1762214402], bytes_received = 0,
             interval = 2, last_bytes = 0, last_heartbeat = 0,
             heartbeat_timer = Some 1762214402, timers = []\<rparr>
   \<and> run 1762214400 [(1762214400, Start 2), (1762214402, Fire 1762214402),
                      (1762214404, Fire 1762214404)] (Checker 312 [])
     = Some \<lparr>exceptions = [ConnectionResetException 1762214404], bytes_received = 312,
             interval = 2, last_bytes = 312, last_heartbeat = 0,
             heartbeat_timer = Some 1762214404, timers = []\<rparr>"
  by (simp add: Checker_def start_def start_heartbeat_timer_def check_for_heartbeat_def
      MAX_MISSED_HEARTBEATS_def)

text \<open>
  C5. With \<open>start(2)\<close> at clock reading 1762214400, a byte counter that stays 0 and
  heartbeats at 1762214403, 1762214406 and 1762214409 (three seconds apart, the first
  three seconds after \<open>start\<close>), the check at 1762214402 pushes a failure before the first
  heartbeat arrives, and no timer is armed afterwards.
\<close>

theorem C5_failure_before_first_heartbeat:
  "run 1762214400 [(1762214400, Start 2), (1762214402, Fire 1762214402),
                   (1762214403, NotifyHeartbeat), (1762214406, NotifyHeartbeat),
                   (1762214409, NotifyHeartbeat)] (Checker 0 [])
   = Some \<lparr>exceptions = [ConnectionResetException 1762214402], bytes_received = 0,
           interval = 2, last_bytes = 0, last_heartbeat = 1762214409,
           heartbeat_timer = Some 1762214402, timers = []\<rparr>"
  by (simp add: Checker_def start_def start_heartbeat_timer_def on_heartbeat_def
      check_for_heartbeat_def MAX_MISSED_HEARTBEATS_def)

text \<open>
  The scenario of the same claim with a heartbeat every 1.5 seconds from \<open>start\<close> on does
  hold on the code: the first heartbeat precedes the first check, and after the five
  checks of the first ten seconds nothing has been pushed.
\<close>

lemma heartbeat_every_1500ms_no_failure:
  "run 1762214400 [(1762214400, Start 2), (1762214401.5, NotifyHeartbeat),
       (1762214402, Fire 1762214402), (1762214403, NotifyHeartbeat),
       (1762214404, Fire 1762214404), (1762214404.5, NotifyHeartbeat),
       (1762214406, NotifyHeartbeat), (1762214406, Fire 1762214406),
       (1762214407.5, NotifyHeartbeat), (1762214408, Fire 1762214408),
       (1762214409, NotifyHeartbeat), (1762214410, Fire 1762214410)] (Checker 0 [])
   = Some \<lparr>exceptions = [], bytes_received = 0, interval = 2, last_bytes = 0,
           last_heartbeat = 1762214409, heartbeat_timer = Some 1762214412,
           timers = [1762214412]\<rparr>"
  by (simp add: Checker_def start_def start_heartbeat_timer_def on_heartbeat_def
      check_for_heartbeat_def MAX_MISSED_HEARTBEATS_def)

end
